theory Spec2Isabelle
  imports Complex_Main
begin

section \<open>Numbers\<close>

text \<open>
  A TypeScript \<open>number\<close> is an IEEE-754 double.  The finite doubles are rationals, so a
  number is modelled as a rational or one of the three special values.  Arithmetic rounds
  its exact result to the nearest double (ties to the even significand), which \<open>fl\<close>
  writes out: 53 significant bits, subnormals below \<open>2^-1022\<close>, overflow to infinity.
  The sign of zero is not modelled; no computation of the code modelled below produces a
  negative zero.

  Counters (\<open>tasksTotal++\<close>) and clock readings in milliseconds are integers far
  below \<open>2^53\<close>, where \<open>+\<close> and \<open>-\<close> on doubles are exact (lemmas
  \<open>num_add_int\<close> and \<open>num_sub_int\<close>); they are modelled as \<open>nat\<close> and
  \<open>int\<close> and enter number arithmetic through \<open>Fin\<close>.
\<close>

datatype number = Fin rat | PInf | NInf | NaN

function bit_length :: "int \<Rightarrow> int" where
  "bit_length n = (if n \<le> 0 then 0 else 1 + bit_length (n div 2))"
  by pat_completeness auto
termination
  by (relation "measure nat") auto

declare bit_length.simps [simp del]

definition pow2 :: "int \<Rightarrow> rat" where
  "pow2 e = (if 0 \<le> e then 2 ^ nat e else 1 / 2 ^ nat (- e))"

text \<open>The binary exponent of a positive rational: \<open>2^e \<le> q < 2^(e+1)\<close>.\<close>

definition ilog2 :: "rat \<Rightarrow> int" where
  "ilog2 q = (let (a, b) = quotient_of q;
                  k = bit_length a - bit_length b
              in if pow2 k \<le> q then k else k - 1)"

definition round_half_even :: "rat \<Rightarrow> int" where
  "round_half_even q = (let f = \<lfloor>q\<rfloor>; r = q - of_int f
     in if r < 1 / 2 then f else if 1 / 2 < r then f + 1 else if even f then f else f + 1)"

definition fl :: "rat \<Rightarrow> number" where
  "fl q = (if q = 0 then Fin 0 else
     let e = max (ilog2 \<bar>q\<bar>) (- 1022);
         u = pow2 (e - 52);
         m = round_half_even (\<bar>q\<bar> / u)
     in if 1024 \<le> e \<or> (e = 1023 \<and> m = 9007199254740992)
        then (if 0 < q then PInf else NInf)
        else Fin (sgn q * (of_int m * u)))"

text \<open>A decimal literal such as \<open>0.3\<close> denotes the double nearest to it.\<close>

definition lit :: "rat \<Rightarrow> number" where
  "lit q = fl q"

text \<open>The operator \<open>*\<close>.\<close>

fun num_mul :: "number \<Rightarrow> number \<Rightarrow> number" where
  "num_mul NaN _ = NaN"
| "num_mul _ NaN = NaN"
| "num_mul (Fin a) (Fin b) = fl (a * b)"
| "num_mul (Fin a) PInf = (if a = 0 then NaN else if 0 < a then PInf else NInf)"
| "num_mul (Fin a) NInf = (if a = 0 then NaN else if 0 < a then NInf else PInf)"
| "num_mul PInf (Fin b) = (if b = 0 then NaN else if 0 < b then PInf else NInf)"
| "num_mul NInf (Fin b) = (if b = 0 then NaN else if 0 < b then NInf else PInf)"
| "num_mul PInf PInf = PInf"
| "num_mul PInf NInf = NInf"
| "num_mul NInf PInf = NInf"
| "num_mul NInf NInf = PInf"

text \<open>The operator \<open>/\<close>; a zero divisor is the positive zero.\<close>

fun num_div :: "number \<Rightarrow> number \<Rightarrow> number" where
  "num_div NaN _ = NaN"
| "num_div _ NaN = NaN"
| "num_div (Fin a) (Fin b) =
     (if b = 0 then (if a = 0 then NaN else if 0 < a then PInf else NInf) else fl (a / b))"
| "num_div (Fin a) PInf = Fin 0"
| "num_div (Fin a) NInf = Fin 0"
| "num_div PInf (Fin b) = (if 0 \<le> b then PInf else NInf)"
| "num_div NInf (Fin b) = (if 0 \<le> b then NInf else PInf)"
| "num_div PInf PInf = NaN"
| "num_div PInf NInf = NaN"
| "num_div NInf PInf = NaN"
| "num_div NInf NInf = NaN"

text \<open>The operator \<open>+\<close>.\<close>

fun num_add :: "number \<Rightarrow> number \<Rightarrow> number" where
  "num_add NaN _ = NaN"
| "num_add _ NaN = NaN"
| "num_add (Fin a) (Fin b) = fl (a + b)"
| "num_add (Fin a) PInf = PInf"
| "num_add (Fin a) NInf = NInf"
| "num_add PInf (Fin b) = PInf"
| "num_add NInf (Fin b) = NInf"
| "num_add PInf PInf = PInf"
| "num_add PInf NInf = NaN"
| "num_add NInf PInf = NaN"
| "num_add NInf NInf = NInf"

text \<open>The operator \<open>-\<close>.\<close>

fun num_sub :: "number \<Rightarrow> number \<Rightarrow> number" where
  "num_sub NaN _ = NaN"
| "num_sub _ NaN = NaN"
| "num_sub (Fin a) (Fin b) = fl (a - b)"
| "num_sub (Fin a) PInf = NInf"
| "num_sub (Fin a) NInf = PInf"
| "num_sub PInf (Fin b) = PInf"
| "num_sub NInf (Fin b) = NInf"
| "num_sub PInf PInf = NaN"
| "num_sub PInf NInf = PInf"
| "num_sub NInf PInf = NInf"
| "num_sub NInf NInf = NaN"

text \<open>The comparison \<open><=\<close>: false as soon as one side is \<open>NaN\<close>.\<close>

fun num_le :: "number \<Rightarrow> number \<Rightarrow> bool" where
  "num_le NaN _ = False"
| "num_le _ NaN = False"
| "num_le (Fin a) (Fin b) = (a \<le> b)"
| "num_le NInf _ = True"
| "num_le _ PInf = True"
| "num_le PInf _ = False"
| "num_le _ NInf = False"

text \<open>\<open>Math.min\<close> of two arguments: \<open>NaN\<close> if either is, else the smaller.\<close>

fun Math_min :: "number \<Rightarrow> number \<Rightarrow> number" where
  "Math_min NaN _ = NaN"
| "Math_min _ NaN = NaN"
| "Math_min a b = (if num_le a b then a else b)"

section \<open>Strings\<close>

text \<open>
  Strings are lists of 8-bit characters; the rule tables and every action the code passes
  are ASCII.  \<open>toLowerCase\<close> maps \<open>A\<close>..\<open>Z\<close> to \<open>a\<close>..\<open>z\<close> and keeps every
  other character.  \<open>string_includes\<close> is \<open>String.prototype.includes\<close>: a search for the
  argument at every position of the receiver.
\<close>

definition toLowerCase_char :: "char \<Rightarrow> char" where
  "toLowerCase_char c =
     (let n = (of_char c :: nat) in if 65 \<le> n \<and> n \<le> 90 then char_of (n + 32) else c)"

definition toLowerCase :: "string \<Rightarrow> string" where
  "toLowerCase s = map toLowerCase_char s"

fun startsWith :: "string \<Rightarrow> string \<Rightarrow> bool" where
  "startsWith _ [] = True"
| "startsWith [] (_ # _) = False"
| "startsWith (c # cs) (d # ds) = (c = d \<and> startsWith cs ds)"

fun string_includes :: "string \<Rightarrow> string \<Rightarrow> bool" where
  "string_includes [] t = (t = [])"
| "string_includes (c # cs) t = (startsWith (c # cs) t \<or> string_includes cs t)"

text \<open>\<open>Array.prototype.some\<close>.\<close>

fun array_some :: "('a \<Rightarrow> bool) \<Rightarrow> 'a list \<Rightarrow> bool" where
  "array_some p [] = False"
| "array_some p (x # xs) = (p x \<or> array_some p xs)"

section \<open>Configuration: \<open>config/autonomy-rules\<close>\<close>

record HelmarAutonomy =
  canDecideAutonomously_rules :: "string list"
  requiresApproval :: "string list"
  mustReport :: "string list"

definition HELMAR_AUTONOMY_RULES :: HelmarAutonomy where
  "HELMAR_AUTONOMY_RULES = \<lparr>
     canDecideAutonomously_rules = [
       ''Daily content themes and topics'',
       ''Budget allocation under $1000'',
       ''Team task assignment and prioritization'',
       ''Performance optimization strategies'',
       ''Content scheduling and publishing'',
       ''A/B testing experiments'',
       ''Resource allocation across departments'',
       ''Minor workflow adjustments'',
       ''Social media engagement responses'',
       ''Content format selection'',
       ''Posting frequency optimization'',
       ''Audience targeting refinements''],
     requiresApproval = [
       ''Major strategy pivots or business model changes'',
       ''Budget expenditure over $1000'',
       ''New market or platform entry'',
       ''Staff restructuring or role changes'',
       ''Partnership agreements and collaborations'',
       ''Brand guidelines major modifications'',
       ''Legal compliance deviations'',
       ''Product pricing changes'',
       ''Market expansion strategies'',
       ''Technology stack modifications''],
     mustReport = [
       ''Daily performance metrics and KPIs'',
       ''Revenue and expense summaries'',
       ''Department status updates'',
       ''System errors and resolutions'',
       ''Content performance analytics'',
       ''Budget utilization reports'',
       ''Security incidents or breaches'',
       ''Customer feedback and complaints'',
       ''Competitive analysis insights'',
       ''Strategic recommendations'']\<rparr>"

record decision_thresholds =
  BUDGET_LIMIT :: number
  REVENUE_DROP_ALERT :: number
  SYSTEM_UPTIME_MINIMUM :: number
  TASK_SUCCESS_RATE_MINIMUM :: number
  RESPONSE_TIME_MAXIMUM :: number
  CONTENT_QUALITY_MINIMUM :: number
  ENGAGEMENT_RATE_MINIMUM :: number

definition DECISION_THRESHOLDS :: decision_thresholds where
  "DECISION_THRESHOLDS = \<lparr>
     BUDGET_LIMIT = Fin 1000,
     REVENUE_DROP_ALERT = lit (2 / 10),
     SYSTEM_UPTIME_MINIMUM = lit (999 / 1000),
     TASK_SUCCESS_RATE_MINIMUM = lit (95 / 100),
     RESPONSE_TIME_MAXIMUM = Fin 300000,
     CONTENT_QUALITY_MINIMUM = Fin 8,
     ENGAGEMENT_RATE_MINIMUM = lit (3 / 100)\<rparr>"

definition CONTENT_TARGETS_DAILY_POSTS :: number where
  "CONTENT_TARGETS_DAILY_POSTS = Fin 10"

definition BUSINESS_TARGETS_MONTHLY_REVENUE :: number where
  "BUSINESS_TARGETS_MONTHLY_REVENUE = Fin 50000"

section \<open>Data model: \<open>types/agent-types\<close>\<close>

text \<open>
  A \<open>Date\<close> is its time value, an integer count of milliseconds.  A task object is
  shared between its creator and the manager that holds it, so managers hold references
  (\<open>ref\<close>) into a store of task objects.
\<close>

type_synonym ref = nat

datatype department_name = DeptContent | DeptProduction | DeptDistribution | DeptRevenue

datatype task_priority = High | Medium | Low

datatype task_status = Pending | InProgress | Completed | Blocked

datatype agent_status = Online | Offline | Busy

record DepartmentTask =
  department :: department_name
  taskId :: string
  description :: string
  priority :: task_priority
  deadline :: int
  assignedTo :: string
  status :: task_status

record PerformanceMetrics =
  tasksCompleted :: nat
  tasksTotal :: nat
  successRate :: number
  systemUptime :: number
  responseTime :: number

text \<open>\<open>DepartmentManager\<close>, without \<open>lastUpdate\<close>, which nothing reads.\<close>

record DepartmentManager =
  name :: string
  department :: string
  status :: agent_status
  currentTasks :: "ref list"
  performance :: PerformanceMetrics

record BudgetAllocation =
  total :: number
  content :: number
  production :: number
  distribution :: number
  marketing :: number
  operations :: number

datatype kpi_trend = Up | Down | Stable

record KPI =
  name :: string
  current :: number
  target :: number
  unit :: string
  trend :: kpi_trend

datatype importance_level = ImpCritical | ImpHigh | ImpMedium | ImpLow

datatype priority_status = PrioPending | PrioInProgress | PrioCompleted

record Priority =
  id :: string
  description :: string
  importance :: importance_level
  deadline :: int
  status :: priority_status

record DailyPlan =
  date :: int
  contentThemes :: "string list"
  budgetAllocation :: BudgetAllocation
  departmentTasks :: "DepartmentTask list"
  kpis :: "KPI list"
  priorities :: "Priority list"

record RevenueSource =
  platform :: string
  amount :: number
  percentage :: number

record RevenueMetrics =
  dailyRevenue :: number
  monthlyRevenue :: number
  target :: number
  growth :: number
  sources :: "RevenueSource list"

record ContentMetrics =
  postsCreated :: number
  videosProduced :: number
  audioStoriesGenerated :: number
  blogPostsWritten :: number
  engagementRate :: number
  reachTotal :: number

datatype severity_level = SevCritical | SevHigh | SevMedium | SevLow

datatype issue_status = IssueOpen | IssueInProgress | IssueResolved

record Issue =
  id :: string
  severity :: severity_level
  description :: string
  department :: string
  status :: issue_status
  reportedAt :: int
  resolvedAt :: "int option"

datatype achievement_type = Milestone | PerformanceAch | RevenueAch | ContentAch

record Achievement =
  id :: string
  type :: achievement_type
  description :: string
  "value" :: number
  date :: int

record DailyReport =
  date :: int
  performance :: PerformanceMetrics
  revenue :: RevenueMetrics
  content :: ContentMetrics
  issues :: "Issue list"
  achievements :: "Achievement list"
  tomorrowsPlan :: "string list"

record Strategy =
  id :: string
  name :: string
  description :: string
  objectives :: "string list"
  timeline :: string
  budget :: number
  expectedROI :: number
  risks :: "string list"
  success_metrics :: "string list"

section \<open>The content manager: \<open>agents/managers/content\<close>\<close>

text \<open>
  \<open>ContentManager\<close> implements \<open>DepartmentManager\<close>; its logger, content plan, content
  buffer and content metrics are read by no property below and are left out.

  \<open>receiveTask\<close> runs to its end without yielding: it starts \<open>processTask\<close>, which
  reaches the first \<open>await\<close> of its handler and suspends.  The rest of \<open>processTask\<close>
  runs later, when the handler has returned or thrown.  The state therefore holds, beside
  the manager's fields and the store of task objects, the list \<open>running\<close> of the
  \<open>processTask\<close> calls that have started and not yet settled, in the order they started.
\<close>

record world =
  manager :: DepartmentManager
  store :: "ref \<Rightarrow> DepartmentTask"
  running :: "ref list"

definition ContentManager_new :: "(ref \<Rightarrow> DepartmentTask) \<Rightarrow> world" where
  "ContentManager_new h =
     \<lparr>manager =
        \<lparr>DepartmentManager.name = ''Content Manager'',
         DepartmentManager.department = ''content'',
         DepartmentManager.status = Online,
         currentTasks = [],
         DepartmentManager.performance =
           \<lparr>tasksCompleted = 0, tasksTotal = 0, successRate = Fin 0, systemUptime = Fin 1,
            responseTime = Fin 0\<rparr>\<rparr>,
      store = h,
      running = []\<rparr>"

definition receiveTask :: "ref \<Rightarrow> world \<Rightarrow> world" where
  "receiveTask task w =
     (let m = manager w;
          m1 = m\<lparr>currentTasks := currentTasks m @ [task]\<rparr>;
          p = DepartmentManager.performance m1;
          m2 = m1\<lparr>DepartmentManager.performance := p\<lparr>tasksTotal := tasksTotal p + 1\<rparr>\<rparr>;
          m3 = (if length (currentTasks m2) > 5
                then m2\<lparr>DepartmentManager.status := Busy\<rparr> else m2)
      in w\<lparr>manager := m3, running := running w @ [task]\<rparr>)"

definition updatePerformanceMetrics :: "world \<Rightarrow> world" where
  "updatePerformanceMetrics w =
     (let m = manager w;
          p = DepartmentManager.performance m;
          m1 = m\<lparr>DepartmentManager.performance :=
                 p\<lparr>successRate :=
                     num_div (Fin (of_nat (tasksCompleted p))) (Fin (of_nat (tasksTotal p)))\<rparr>\<rparr>;
          pendingTasks =
            filter (\<lambda>t. DepartmentTask.status (store w t) = Pending
                       \<or> DepartmentTask.status (store w t) = InProgress) (currentTasks m1)
      in if length pendingTasks = 0
         then w\<lparr>manager := m1\<lparr>DepartmentManager.status := Online\<rparr>\<rparr>
         else w\<lparr>manager := m1\<rparr>)"

text \<open>
  How the \<open>try\<close> block of \<open>processTask\<close> ends before it marks the task completed:
  the handler returns, or something throws and the \<open>catch\<close> block runs.  The handlers
  of the source only log, wait and fill the content buffer, so a throw comes from outside
  them (a task whose description is not a string at run time, say); \<open>Throws\<close> stands
  for any such failure.  The handlers' own effects (posts pushed to the content buffer,
  random engagement increments) touch none of the fields kept here.  The logger is taken
  not to throw.
\<close>

datatype outcome = Returns | Throws

text \<open>The part of \<open>processTask\<close> after the handler: the success path or the catch block.\<close>

definition processTask_settle :: "ref \<Rightarrow> outcome \<Rightarrow> world \<Rightarrow> world" where
  "processTask_settle task out w =
     (case out of
        Returns \<Rightarrow>
          (let w1 = w\<lparr>store := (store w)(task := (store w task)\<lparr>DepartmentTask.status := Completed\<rparr>)\<rparr>;
               m = manager w1;
               p = DepartmentManager.performance m;
               w2 = w1\<lparr>manager :=
                        m\<lparr>DepartmentManager.performance :=
                            p\<lparr>tasksCompleted := tasksCompleted p + 1\<rparr>\<rparr>\<rparr>
           in updatePerformanceMetrics w2)
      | Throws \<Rightarrow>
          w\<lparr>store := (store w)(task := (store w task)\<lparr>DepartmentTask.status := Blocked\<rparr>)\<rparr>)"

text \<open>
  What can happen to a manager: a task is received, or a running \<open>processTask\<close>
  settles.  A call can only settle while it is running.
\<close>

datatype event = Receive ref | Settle ref outcome

fun step :: "event \<Rightarrow> world \<Rightarrow> world option" where
  "step (Receive task) w = Some (receiveTask task w)"
| "step (Settle task out) w =
     (if task \<in> set (running w)
      then Some ((processTask_settle task out w)\<lparr>running := remove1 task (running w)\<rparr>)
      else None)"

fun exec :: "event list \<Rightarrow> world \<Rightarrow> world option" where
  "exec [] w = Some w"
| "exec (e # es) w = (case step e w of None \<Rightarrow> None | Some w' \<Rightarrow> exec es w')"

text \<open>The tasks received in a sequence of events, in the order of reception.\<close>

fun receptions :: "event list \<Rightarrow> ref list" where
  "receptions [] = []"
| "receptions (Receive task # es) = task # receptions es"
| "receptions (Settle task out # es) = receptions es"

section \<open>The CEO agent: \<open>agents/ceo/helmar\<close>\<close>

text \<open>
  The winston logger is a list of entries: level, message and the error object passed
  with it, if any.  Emoji are dropped from the messages.  An error object is its message.
\<close>

datatype log_level = Info | Error

type_synonym exn = string

type_synonym log_entry = "log_level \<times> string \<times> exn option"

text \<open>\<open>departments\<close> is a \<open>Map\<close>: an association list in insertion order.\<close>

record HelmarCEO =
  departments :: "(string \<times> DepartmentManager) list"
  currentStrategy :: "Strategy option"
  dailyPlan :: "DailyPlan option"
  issues :: "Issue list"
  achievements :: "Achievement list"
  startTime :: int
  logger :: "log_entry list"

definition log_info :: "string \<Rightarrow> HelmarCEO \<Rightarrow> HelmarCEO" where
  "log_info msg s = s\<lparr>logger := logger s @ [(Info, msg, None)]\<rparr>"

definition log_error :: "string \<Rightarrow> exn \<Rightarrow> HelmarCEO \<Rightarrow> HelmarCEO" where
  "log_error msg e s = s\<lparr>logger := logger s @ [(Error, msg, Some e)]\<rparr>"

text \<open>\<open>Map.prototype.set\<close>: replaces in place or appends.\<close>

fun Map_set :: "'k \<Rightarrow> 'v \<Rightarrow> ('k \<times> 'v) list \<Rightarrow> ('k \<times> 'v) list" where
  "Map_set k v [] = [(k, v)]"
| "Map_set k v (p # ps) = (if fst p = k then (k, v) # ps else p # Map_set k v ps)"

definition initializeDepartments :: "HelmarCEO \<Rightarrow> HelmarCEO" where
  "initializeDepartments s =
     (let depts = [''content'', ''production'', ''distribution'', ''revenue''];
          s1 = foldl (\<lambda>s dept. s\<lparr>departments :=
                 Map_set dept
                   \<lparr>DepartmentManager.name = dept,
                    DepartmentManager.department = dept,
                    DepartmentManager.status = Online,
                    currentTasks = [],
                    DepartmentManager.performance =
                      \<lparr>tasksCompleted = 0, tasksTotal = 0, successRate = Fin 0,
                       systemUptime = Fin 1, responseTime = Fin 0\<rparr>\<rparr>
                   (departments s)\<rparr>) s depts
      in log_info ''Initialized 4 department managers'' s1)"

text \<open>The constructor; \<open>now\<close> is the clock reading that initialises \<open>startTime\<close>.\<close>

definition HelmarCEO_new :: "int \<Rightarrow> HelmarCEO" where
  "HelmarCEO_new now =
     initializeDepartments
       (log_info ''Helmar CEO Agent initialized''
          \<lparr>departments = [], currentStrategy = None, dailyPlan = None,
           HelmarCEO.issues = [], HelmarCEO.achievements = [], startTime = now,
           logger = []\<rparr>)"

definition canDecideAutonomously :: "string \<Rightarrow> bool" where
  "canDecideAutonomously action =
     array_some (\<lambda>rule. string_includes (toLowerCase action) (toLowerCase rule))
       (canDecideAutonomously_rules HELMAR_AUTONOMY_RULES)"

definition selectContentThemes :: "string list" where
  "selectContentThemes =
     take 4 [''AI & Technology'', ''Business Growth'', ''Productivity Hacks'',
             ''Industry Insights'', ''Success Stories'', ''Market Analysis'',
             ''Innovation Trends'', ''Leadership Tips'']"

definition calculateBudgetAllocation :: BudgetAllocation where
  "calculateBudgetAllocation =
     (let totalBudget = Math_min (BUDGET_LIMIT DECISION_THRESHOLDS) (Fin 800)
      in \<lparr>BudgetAllocation.total = totalBudget,
          BudgetAllocation.content = num_mul totalBudget (lit (3 / 10)),
          production = num_mul totalBudget (lit (25 / 100)),
          distribution = num_mul totalBudget (lit (25 / 100)),
          marketing = num_mul totalBudget (lit (15 / 100)),
          operations = num_mul totalBudget (lit (5 / 100))\<rparr>)"

text \<open>
  \<open>uuidv4\<close> is a parameter: \<open>uuid k\<close> is the \<open>k\<close>-th identifier drawn in a call.
  \<open>now\<close> is the clock reading of a call.
\<close>

definition generateDepartmentTasks :: "int \<Rightarrow> (nat \<Rightarrow> string) \<Rightarrow> DepartmentTask list" where
  "generateDepartmentTasks now uuid =
     [\<lparr>DepartmentTask.department = DeptContent, taskId = uuid 0,
       DepartmentTask.description = ''Create 10+ social media posts'',
       priority = High, DepartmentTask.deadline = now + 24 * 60 * 60 * 1000,
       assignedTo = ''content-manager'', DepartmentTask.status = Pending\<rparr>,
      \<lparr>DepartmentTask.department = DeptProduction, taskId = uuid 1,
       DepartmentTask.description = ''Produce 2 videos for weekly schedule'',
       priority = Medium, DepartmentTask.deadline = now + 48 * 60 * 60 * 1000,
       assignedTo = ''production-manager'', DepartmentTask.status = Pending\<rparr>,
      \<lparr>DepartmentTask.department = DeptDistribution, taskId = uuid 2,
       DepartmentTask.description = ''Schedule and publish content across platforms'',
       priority = High, DepartmentTask.deadline = now + 12 * 60 * 60 * 1000,
       assignedTo = ''distribution-manager'', DepartmentTask.status = Pending\<rparr>,
      \<lparr>DepartmentTask.department = DeptRevenue, taskId = uuid 3,
       DepartmentTask.description = ''Analyze conversion rates and optimize funnels'',
       priority = Medium, DepartmentTask.deadline = now + 36 * 60 * 60 * 1000,
       assignedTo = ''revenue-manager'', DepartmentTask.status = Pending\<rparr>]"

definition getCurrentKPIs :: "KPI list" where
  "getCurrentKPIs =
     [\<lparr>KPI.name = ''Daily Content Production'', current = Fin 8,
       KPI.target = CONTENT_TARGETS_DAILY_POSTS, unit = ''posts'', trend = Up\<rparr>,
      \<lparr>KPI.name = ''System Uptime'', current = lit (999 / 10),
       KPI.target = lit (999 / 10), unit = ''%'', trend = Stable\<rparr>,
      \<lparr>KPI.name = ''Monthly Revenue'', current = Fin 12000,
       KPI.target = BUSINESS_TARGETS_MONTHLY_REVENUE, unit = ''$'', trend = Up\<rparr>]"

definition identifyPriorities :: "int \<Rightarrow> (nat \<Rightarrow> string) \<Rightarrow> Priority list" where
  "identifyPriorities now uuid =
     [\<lparr>Priority.id = uuid 0,
       Priority.description = ''Complete content production targets'',
       importance = ImpCritical, Priority.deadline = now + 24 * 60 * 60 * 1000,
       Priority.status = PrioPending\<rparr>,
      \<lparr>Priority.id = uuid 1,
       Priority.description = ''Optimize underperforming campaigns'',
       importance = ImpHigh, Priority.deadline = now + 48 * 60 * 60 * 1000,
       Priority.status = PrioPending\<rparr>]"

text \<open>
  \<open>analyzePerformance\<close> reads the clock twice: \<open>t1\<close> in the numerator, \<open>t2\<close> in the
  denominator of \<open>uptime\<close>.
\<close>

definition analyzePerformance :: "int \<Rightarrow> int \<Rightarrow> HelmarCEO \<Rightarrow> PerformanceMetrics" where
  "analyzePerformance t1 t2 s =
     (let uptime = num_div (Fin (of_int (t1 - startTime s)))
                           (Fin (of_int (t2 - startTime s + 1000)))
      in \<lparr>tasksCompleted = 45, tasksTotal = 50, successRate = lit (9 / 10),
          systemUptime = Math_min uptime (Fin 1), responseTime = Fin 150\<rparr>)"

definition calculateRevenue :: RevenueMetrics where
  "calculateRevenue =
     \<lparr>dailyRevenue = Fin 2000, monthlyRevenue = Fin 15000,
      RevenueMetrics.target = BUSINESS_TARGETS_MONTHLY_REVENUE, growth = lit (15 / 100),
      sources =
        [\<lparr>platform = ''YouTube'', amount = Fin 800, percentage = Fin 40\<rparr>,
         \<lparr>platform = ''Instagram'', amount = Fin 600, percentage = Fin 30\<rparr>,
         \<lparr>platform = ''Blog'', amount = Fin 400, percentage = Fin 20\<rparr>,
         \<lparr>platform = ''Courses'', amount = Fin 200, percentage = Fin 10\<rparr>]\<rparr>"

definition analyzeContentMetrics :: ContentMetrics where
  "analyzeContentMetrics =
     \<lparr>postsCreated = Fin 12, videosProduced = Fin 2, audioStoriesGenerated = Fin 3,
      blogPostsWritten = Fin 1, engagementRate = lit (45 / 1000), reachTotal = Fin 50000\<rparr>"

definition distributeDailyPlan :: "HelmarCEO \<Rightarrow> HelmarCEO" where
  "distributeDailyPlan s = log_info ''Daily plan distributed to all departments'' s"

definition generateStrategicObjectives :: "string list" where
  "generateStrategicObjectives =
     [''Increase daily content production by 25%'',
      ''Expand to 2 new social media platforms'',
      ''Improve engagement rate by 15%'',
      ''Launch new revenue stream'']"

definition identifyStrategicRisks :: "string list" where
  "identifyStrategicRisks =
     [''Market saturation in current niche'',
      ''Algorithm changes on major platforms'',
      ''Increased competition'',
      ''Economic downturn affecting ad spend'']"

definition defineSuccessMetrics :: "string list" where
  "defineSuccessMetrics =
     [''Monthly revenue growth > 20%'',
      ''Content engagement rate > 4%'',
      ''System uptime > 99.9%'',
      ''New followers > 10,000/month'']"

definition implementStrategy :: "Strategy \<Rightarrow> HelmarCEO \<Rightarrow> HelmarCEO" where
  "implementStrategy strategy s =
     log_info (''Implementing strategy: '' @ Strategy.name strategy) s"

definition requestApproval :: "string \<Rightarrow> HelmarCEO \<Rightarrow> HelmarCEO" where
  "requestApproval kind s = log_info (''Requesting approval for: '' @ kind) s"

definition handleDepartmentError :: "string \<Rightarrow> exn \<Rightarrow> HelmarCEO \<Rightarrow> HelmarCEO" where
  "handleDepartmentError deptName e s =
     log_error (''Department '' @ deptName @ '' error:'') e s"

definition generateTomorrowsPlan :: "string list" where
  "generateTomorrowsPlan =
     [''Review and optimize yesterday'' @ [CHR 0x27] @ ''s content performance'',
      ''Implement new A/B testing strategies'',
      ''Analyze competitor content strategies'',
      ''Scale successful content formats'']"

definition sendReport :: "DailyReport \<Rightarrow> HelmarCEO \<Rightarrow> HelmarCEO" where
  "sendReport report s = log_info ''Sending daily report to stakeholders'' s"

text \<open>
  \<open>morningBriefing\<close>: the plan it returns and the state it leaves.  The method also
  calls \<open>analyzePerformance\<close>, which changes nothing and whose result it does not use.
\<close>

definition morningBriefing :: "int \<Rightarrow> (nat \<Rightarrow> string) \<Rightarrow> HelmarCEO \<Rightarrow> DailyPlan \<times> HelmarCEO" where
  "morningBriefing now uuid s =
     (let s1 = log_info ''Starting morning briefing...'' s;
          budget = calculateBudgetAllocation;
          tasks = generateDepartmentTasks now uuid;
          kpis = getCurrentKPIs;
          priorities = identifyPriorities now (\<lambda>k. uuid (4 + k));
          plan = \<lparr>DailyPlan.date = now, contentThemes = selectContentThemes,
                  budgetAllocation = budget, departmentTasks = tasks,
                  DailyPlan.kpis = kpis, DailyPlan.priorities = priorities\<rparr>;
          s2 = log_info ''Daily plan created successfully'' (s1\<lparr>dailyPlan := Some plan\<rparr>)
      in (plan, distributeDailyPlan s2))"

text \<open>
  \<open>makeStrategicDecisions\<close>; \<open>isoDate\<close> is the date part of
  \<open>new Date().toISOString()\<close>.  The performance, market and competitor analyses
  it calls first change nothing, and the helpers they are passed to ignore them.
\<close>

definition makeStrategicDecisions :: "string \<Rightarrow> string \<Rightarrow> HelmarCEO \<Rightarrow> Strategy \<times> HelmarCEO" where
  "makeStrategicDecisions uuid isoDate s =
     (let s1 = log_info ''Analyzing strategic opportunities...'' s;
          strategy =
            \<lparr>Strategy.id = uuid,
             Strategy.name = ''Strategic Focus '' @ isoDate,
             Strategy.description =
               ''Optimized strategy based on current performance and market conditions'',
             objectives = generateStrategicObjectives,
             timeline = ''30 days'',
             budget = Math_min (BUDGET_LIMIT DECISION_THRESHOLDS) (Fin 800),
             expectedROI = lit (25 / 10),
             risks = identifyStrategicRisks,
             success_metrics = defineSuccessMetrics\<rparr>
      in if canDecideAutonomously ''Strategic planning within budget''
         then (strategy,
               implementStrategy strategy
                 (log_info (''Strategic decision made autonomously: '' @ Strategy.name strategy)
                    (s1\<lparr>currentStrategy := Some strategy\<rparr>)))
         else (strategy,
               requestApproval ''strategic_decision''
                 (log_info ''Strategic decision requires approval'' s1)))"

text \<open>
  \<open>manageDepartments\<close>.  The four helpers called in the \<open>try\<close> block
  (\<open>checkDepartmentHealth\<close>, \<open>assignTasks\<close>, \<open>monitorProgress\<close>,
  \<open>optimizePerformance\<close>) have empty bodies.  So that the \<open>catch\<close> block can be
  reached, how the processing of each department ends is a parameter: \<open>throws d = None\<close>
  when it returns, as the empty helpers do, and \<open>throws d = Some e\<close> when it raises
  \<open>e\<close>.
\<close>

definition manageDepartment :: "(string \<Rightarrow> exn option) \<Rightarrow> string \<Rightarrow> HelmarCEO \<Rightarrow> HelmarCEO" where
  "manageDepartment throws deptName s =
     (case throws deptName of
        None \<Rightarrow> s
      | Some e \<Rightarrow>
          handleDepartmentError deptName e
            (log_error (''Error managing '' @ deptName @ '' department:'') e s))"

fun manageDepartments_loop :: "(string \<Rightarrow> exn option) \<Rightarrow> string list \<Rightarrow> HelmarCEO \<Rightarrow> HelmarCEO" where
  "manageDepartments_loop throws [] s = s"
| "manageDepartments_loop throws (deptName # rest) s =
     manageDepartments_loop throws rest (manageDepartment throws deptName s)"

definition manageDepartments :: "(string \<Rightarrow> exn option) \<Rightarrow> HelmarCEO \<Rightarrow> HelmarCEO" where
  "manageDepartments throws s =
     (let s1 = log_info ''Managing department operations...'' s
      in manageDepartments_loop throws (map fst (departments s1)) s1)"

text \<open>
  \<open>eveningReport\<close>.  \<open>toDateString\<close> names the calendar day of a date; the day is
  counted in UTC.
\<close>

definition toDateString :: "int \<Rightarrow> int" where
  "toDateString t = t div 86400000"

definition eveningReport :: "int \<Rightarrow> int \<Rightarrow> int \<Rightarrow> HelmarCEO \<Rightarrow> DailyReport \<times> HelmarCEO" where
  "eveningReport t1 t2 now s =
     (let s1 = log_info ''Generating evening report...'' s;
          performance = analyzePerformance t1 t2 s1;
          revenue = calculateRevenue;
          content = analyzeContentMetrics;
          currentIssues = filter (\<lambda>i. Issue.status i \<noteq> IssueResolved) (HelmarCEO.issues s1);
          todaysAchievements =
            filter (\<lambda>a. toDateString (Achievement.date a) = toDateString now)
              (HelmarCEO.achievements s1);
          report = \<lparr>DailyReport.date = now,
                    DailyReport.performance = performance,
                    revenue = revenue,
                    DailyReport.content = content,
                    DailyReport.issues = currentIssues,
                    DailyReport.achievements = todaysAchievements,
                    tomorrowsPlan = generateTomorrowsPlan\<rparr>;
          s2 = log_info ''Evening report generated successfully'' s1
      in (report, sendReport report s2))"

text \<open>The public methods, as calls a CEO agent receives one after the other.\<close>

datatype ceo_call =
    MorningBriefing int "nat \<Rightarrow> string"
  | MakeStrategicDecisions string string
  | ManageDepartments "string \<Rightarrow> exn option"
  | EveningReport int int int

fun ceo_step :: "ceo_call \<Rightarrow> HelmarCEO \<Rightarrow> HelmarCEO" where
  "ceo_step (MorningBriefing now uuid) s = snd (morningBriefing now uuid s)"
| "ceo_step (MakeStrategicDecisions uuid isoDate) s = snd (makeStrategicDecisions uuid isoDate s)"
| "ceo_step (ManageDepartments throws) s = manageDepartments throws s"
| "ceo_step (EveningReport t1 t2 now) s = snd (eveningReport t1 t2 now s)"

fun ceo_run :: "ceo_call list \<Rightarrow> HelmarCEO \<Rightarrow> HelmarCEO" where
  "ceo_run [] s = s"
| "ceo_run (c # cs) s = ceo_run cs (ceo_step c s)"

text \<open>The sum of the five department shares, added left to right as \<open>+\<close> does.\<close>

definition shares_sum :: "BudgetAllocation \<Rightarrow> number" where
  "shares_sum a =
     num_add (num_add (num_add (num_add (BudgetAllocation.content a) (production a))
       (distribution a)) (marketing a)) (operations a)"

text \<open>
  The match that \<open>canDecideAutonomously\<close> applies to its own rule list, for any rule
  list: some rule occurs in the action, letter case aside.
\<close>

definition matches_rule_set :: "string list \<Rightarrow> string \<Rightarrow> bool" where
  "matches_rule_set rules action =
     array_some (\<lambda>rule. string_includes (toLowerCase action) (toLowerCase rule)) rules"

text \<open>A number in the closed interval from 0 to 1.\<close>

fun in_unit_interval :: "number \<Rightarrow> bool" where
  "in_unit_interval (Fin r) = (0 \<le> r \<and> r \<le> 1)"
| "in_unit_interval _ = False"

section \<open>Example inputs\<close>

text \<open>
  A store of pending content tasks: the task at reference 0 has low priority and the later
  deadline, every other task has high priority and the earlier deadline.
\<close>

definition example_store :: "ref \<Rightarrow> DepartmentTask" where
  "example_store r =
     \<lparr>DepartmentTask.department = DeptContent,
      taskId = (if r = 0 then ''task-a'' else ''task-b''),
      DepartmentTask.description = ''Analyze competitor content'',
      priority = (if r = 0 then Low else High),
      DepartmentTask.deadline = (if r = 0 then 2000 else 1000),
      assignedTo = ''content-manager'',
      DepartmentTask.status = Pending\<rparr>"

text \<open>
  Ten tasks handed to the manager one after the other, each settled before the next is
  received: the first nine complete, the processing of the tenth fails.
\<close>

definition nine_successes_then_failure :: "event list" where
  "nine_successes_then_failure =
     [Receive 0, Settle 0 Returns, Receive 1, Settle 1 Returns, Receive 2, Settle 2 Returns,
      Receive 3, Settle 3 Returns, Receive 4, Settle 4 Returns, Receive 5, Settle 5 Returns,
      Receive 6, Settle 6 Returns, Receive 7, Settle 7 Returns, Receive 8, Settle 8 Returns,
      Receive 9, Settle 9 Throws]"

text \<open>Department processing in which exactly the content department raises an error.\<close>

definition content_throws :: "string \<Rightarrow> exn option" where
  "content_throws deptName =
     (if deptName = ''content'' then Some ''health check failed'' else None)"

section \<open>Facts about rounding\<close>

lemma pow2_pos: "0 < pow2 e"
  by (simp add: pow2_def)

lemma pow2_powi: "pow2 e = 2 powi e"
  by (simp add: pow2_def power_int_def inverse_eq_divide power_one_over)

lemma pow2_add: "pow2 (a + b) = pow2 a * pow2 b"
  by (simp add: pow2_powi power_int_add)

lemma pow2_mono: "a \<le> b \<Longrightarrow> pow2 a \<le> pow2 b"
  by (simp add: pow2_powi power_int_increasing)

lemma pow2_0: "pow2 0 = 1"
  by (simp add: pow2_def)

lemma pow2_1: "pow2 1 = 2"
  by (simp add: pow2_def)

lemma pow2_Suc: "pow2 (e + 1) = 2 * pow2 e"
  by (simp add: pow2_add pow2_1)

lemma bit_length_nonneg: "0 \<le> bit_length n"
proof (induction n rule: bit_length.induct)
  case (1 n)
  then show ?case
    by (subst bit_length.simps) auto
qed

lemma bit_length_bounds:
  "0 < n \<Longrightarrow> pow2 (bit_length n - 1) \<le> of_int n \<and> of_int n < pow2 (bit_length n)"
proof (induction n rule: bit_length.induct)
  case (1 n)
  show ?case
  proof (cases "n = 1")
    case True
    have "bit_length 1 = 1"
      by code_simp
    with True show ?thesis
      by (simp add: pow2_def)
  next
    case False
    with "1.prems" have h: "0 < n div 2" by simp
    with "1.prems" "1.IH" have ih: "pow2 (bit_length (n div 2) - 1) \<le> of_int (n div 2)"
      "of_int (n div 2) < pow2 (bit_length (n div 2))"
      by auto
    from "1.prems" have bl: "bit_length n = bit_length (n div 2) + 1"
      by (subst bit_length.simps) simp
    have lo: "2 * (of_int (n div 2) :: rat) \<le> of_int n"
    proof -
      have "2 * (n div 2) \<le> n" by simp
      then have "(of_int (2 * (n div 2)) :: rat) \<le> of_int n"
        by (simp only: of_int_le_iff)
      then show ?thesis by simp
    qed
    have hi: "(of_int n :: rat) \<le> 2 * of_int (n div 2) + 1"
    proof -
      have "n \<le> 2 * (n div 2) + 1" by presburger
      then have "(of_int n :: rat) \<le> of_int (2 * (n div 2) + 1)"
        by (simp only: of_int_le_iff)
      then show ?thesis by simp
    qed
    obtain m where m: "pow2 (bit_length (n div 2)) = of_int m"
    proof -
      from bit_length_nonneg [of "n div 2"]
      have "pow2 (bit_length (n div 2)) = of_int (2 ^ nat (bit_length (n div 2)))"
        by (simp add: pow2_def)
      then show ?thesis using that by blast
    qed
    from ih(2) m have "n div 2 < m"
      by simp
    then have "n div 2 + 1 \<le> m" by simp
    then have "(of_int (n div 2 + 1) :: rat) \<le> of_int m"
      by (simp only: of_int_le_iff)
    with m have up: "of_int (n div 2) + 1 \<le> pow2 (bit_length (n div 2))"
      by simp
    have "pow2 (bit_length n - 1) = pow2 (bit_length (n div 2) - 1 + 1)"
      by (simp add: bl)
    also have "\<dots> = 2 * pow2 (bit_length (n div 2) - 1)"
      by (rule pow2_Suc)
    also from ih(1) lo have "\<dots> \<le> of_int n" by simp
    finally have A: "pow2 (bit_length n - 1) \<le> of_int n" .
    have "(of_int n :: rat) < 2 * (of_int (n div 2) + 1)"
      using hi by simp
    also from up have "\<dots> \<le> 2 * pow2 (bit_length (n div 2))" by simp
    also have "\<dots> = pow2 (bit_length n)"
      by (simp add: bl pow2_Suc)
    finally have B: "of_int n < pow2 (bit_length n)" .
    from A B show ?thesis by simp
  qed
qed

lemma ilog2_bounds:
  assumes "0 < q"
  shows "pow2 (ilog2 q) \<le> q \<and> q < pow2 (ilog2 q + 1)"
proof -
  obtain a b where ab: "quotient_of q = (a, b)"
    by (cases "quotient_of q")
  then have b: "0 < b" and q: "q = of_int a / of_int b"
    using quotient_of_denom_pos quotient_of_div by auto
  with assms have a: "0 < a"
    by (simp add: zero_less_divide_iff)
  define k where "k = bit_length a - bit_length b"
  from bit_length_bounds [OF a] have a1: "pow2 (bit_length a - 1) \<le> of_int a"
    and a2: "of_int a < pow2 (bit_length a)" by auto
  from bit_length_bounds [OF b] have b1: "pow2 (bit_length b - 1) \<le> of_int b"
    and b2: "of_int b < pow2 (bit_length b)" by auto
  have pb: "(0::rat) < of_int b" using b by simp
  have lo: "pow2 (k - 1) \<le> q"
  proof -
    have "pow2 (k - 1) * of_int b \<le> pow2 (k - 1) * pow2 (bit_length b)"
      using b2 pow2_pos [of "k - 1"] by simp
    also have "\<dots> = pow2 (bit_length a - 1)"
      by (simp add: k_def flip: pow2_add)
    also have "\<dots> \<le> of_int a" by (rule a1)
    finally show ?thesis
      using pb by (simp add: q pos_le_divide_eq)
  qed
  have hi: "q < pow2 (k + 1)"
  proof -
    have "of_int a < pow2 (bit_length a)" by (rule a2)
    also have "\<dots> = pow2 (k + 1) * pow2 (bit_length b - 1)"
      by (simp add: k_def flip: pow2_add)
    also have "\<dots> \<le> pow2 (k + 1) * of_int b"
      using b1 pow2_pos [of "k + 1"] by simp
    finally show ?thesis
      using pb by (simp add: q pos_divide_less_eq)
  qed
  show ?thesis
  proof (cases "pow2 k \<le> q")
    case True
    with hi show ?thesis
      by (simp add: ilog2_def ab k_def Let_def)
  next
    case False
    then have "q < pow2 k" by simp
    with False lo show ?thesis
      by (simp add: ilog2_def ab k_def Let_def)
  qed
qed


lemma round_half_even_of_int: "round_half_even (of_int k) = k"
  by (simp add: round_half_even_def Let_def)

text \<open>
  Integers below \<open>2^53\<close> in magnitude are doubles: rounding leaves them as they are.
\<close>

lemma fl_of_int:
  assumes "\<bar>n\<bar> < 2 ^ 53"
  shows "fl (of_int n) = Fin (of_int n)"
proof (cases "n = 0")
  case True
  then show ?thesis by (simp add: fl_def)
next
  case False
  define q :: rat where "q = \<bar>of_int n\<bar>"
  have q: "q = of_int \<bar>n\<bar>" by (simp add: q_def)
  have q1: "1 \<le> q"
  proof -
    from False have "1 \<le> \<bar>n\<bar>" by simp
    then have "(of_int 1 :: rat) \<le> of_int \<bar>n\<bar>"
      by (simp only: of_int_le_iff)
    then show ?thesis by (simp add: q)
  qed
  then have qpos: "0 < q" by simp
  from assms have q53: "q < pow2 53"
  proof -
    from assms have "(of_int \<bar>n\<bar> :: rat) < of_int (2 ^ 53)"
      by (simp only: of_int_less_iff)
    then show ?thesis by (simp add: q pow2_def)
  qed
  define e where "e = ilog2 q"
  from ilog2_bounds [OF qpos] have lo: "pow2 e \<le> q" and hi: "q < pow2 (e + 1)"
    by (simp_all add: e_def)
  have e0: "0 \<le> e"
  proof (rule ccontr)
    assume "\<not> 0 \<le> e"
    then have "e + 1 \<le> 0" by simp
    then have "pow2 (e + 1) \<le> pow2 0" by (rule pow2_mono)
    with hi q1 show False by (simp add: pow2_0)
  qed
  have e52: "e \<le> 52"
  proof (rule ccontr)
    assume "\<not> e \<le> 52"
    then have "53 \<le> e" by simp
    then have "pow2 53 \<le> pow2 e" by (rule pow2_mono)
    with lo q53 show False by simp
  qed
  define k where "k = \<bar>n\<bar> * 2 ^ nat (52 - e)"
  have u: "pow2 (e - 52) = 1 / 2 ^ nat (52 - e)"
  proof (cases "e = 52")
    case True
    then show ?thesis by (simp add: pow2_def)
  next
    case False
    with e52 have "e < 52" by simp
    then show ?thesis by (simp add: pow2_def)
  qed
  have quo: "q / pow2 (e - 52) = of_int k"
    by (simp add: u k_def q)
  have prod: "of_int k * pow2 (e - 52) = q"
    by (simp add: u k_def q)
  have mx: "max e (- 1022) = e" using e0 by simp
  have sg: "sgn (of_int n :: rat) * q = of_int n"
    by (simp add: q_def sgn_mult_abs)
  from False have nz: "(of_int n :: rat) \<noteq> 0" by simp
  have "fl (of_int n) = Fin (sgn (of_int n) * (of_int (round_half_even (q / pow2 (e - 52)))
      * pow2 (e - 52)))"
    using nz e52 by (simp add: fl_def Let_def mx flip: q_def e_def)
  also have "\<dots> = Fin (of_int n)"
    by (simp only: quo round_half_even_of_int prod sg)
  finally show ?thesis .
qed

lemma round_half_even_nonneg: "0 \<le> q \<Longrightarrow> 0 \<le> round_half_even q"
  by (auto simp: round_half_even_def Let_def)

lemma num_add_int:
  "\<bar>a + b\<bar> < 2 ^ 53 \<Longrightarrow> num_add (Fin (of_int a)) (Fin (of_int b)) = Fin (of_int (a + b))"
  using fl_of_int [of "a + b"] by simp

lemma num_sub_int:
  "\<bar>a - b\<bar> < 2 ^ 53 \<Longrightarrow> num_sub (Fin (of_int a)) (Fin (of_int b)) = Fin (of_int (a - b))"
  using fl_of_int [of "a - b"] by simp

text \<open>Rounding keeps a number that is not negative from becoming negative.\<close>

lemma fl_nonneg:
  assumes "0 \<le> q"
  shows "num_le (Fin 0) (fl q)"
proof (cases "q = 0")
  case True
  then show ?thesis by (simp add: fl_def)
next
  case False
  with assms have pos: "0 < q" by simp
  define u where "u = pow2 (max (ilog2 \<bar>q\<bar>) (- 1022) - 52)"
  have "0 < u"
    unfolding u_def by (rule pow2_pos)
  with pos have "0 \<le> \<bar>q\<bar> / u" by simp
  then have "0 \<le> round_half_even (\<bar>q\<bar> / u)"
    by (rule round_half_even_nonneg)
  with \<open>0 < u\<close> have "0 \<le> of_int (round_half_even (\<bar>q\<bar> / u)) * u"
    by simp
  with pos show ?thesis
    by (simp add: fl_def Let_def u_def)
qed

lemma Math_min_unit: "num_le (Fin 0) x \<Longrightarrow> in_unit_interval (Math_min x (Fin 1))"
  by (cases x) auto

text \<open>
  The rounding on known values: \<open>0.3\<close> and \<open>1/3\<close> are the doubles
  \<open>0x3FD3333333333333\<close> and \<open>0x3FD5555555555555\<close>; \<open>0.1 + 0.2\<close> is not
  \<open>0.3\<close> but the next double; \<open>2^53 + 1\<close> is a tie and rounds to the even
  \<open>2^53\<close>.
\<close>

lemma lit_three_tenths: "lit (3 / 10) = Fin (5404319552844595 / 18014398509481984)"
  by code_simp

lemma fl_one_third: "fl (1 / 3) = Fin (6004799503160661 / 18014398509481984)"
  by code_simp

lemma one_tenth_plus_two_tenths:
  "num_add (lit (1 / 10)) (lit (2 / 10)) = Fin (5404319552844596 / 18014398509481984)"
  by code_simp

lemma fl_tie_to_even: "fl 9007199254740993 = Fin 9007199254740992"
  by code_simp

section \<open>Rounded products of the allocation\<close>

lemma totalBudget_800: "Math_min (BUDGET_LIMIT DECISION_THRESHOLDS) (Fin 800) = Fin 800"
  by (simp add: DECISION_THRESHOLDS_def)

lemma share_30: "num_mul (Fin 800) (lit (3 / 10)) = Fin 240"
  by code_simp

lemma share_25: "num_mul (Fin 800) (lit (25 / 100)) = Fin 200"
  by code_simp

lemma share_15: "num_mul (Fin 800) (lit (15 / 100)) = Fin 120"
  by code_simp

lemma share_5: "num_mul (Fin 800) (lit (5 / 100)) = Fin 40"
  by code_simp

lemma calculateBudgetAllocation_value:
  "calculateBudgetAllocation =
     \<lparr>BudgetAllocation.total = Fin 800, BudgetAllocation.content = Fin 240, production = Fin 200, distribution = Fin 200,
      marketing = Fin 120, operations = Fin 40\<rparr>"
  unfolding calculateBudgetAllocation_def totalBudget_800 Let_def
    share_30 share_25 share_15 share_5
  by (rule refl)

lemma sum_440: "num_add (Fin 240) (Fin 200) = Fin 440"
  by code_simp

lemma sum_640: "num_add (Fin 440) (Fin 200) = Fin 640"
  by code_simp

lemma sum_760: "num_add (Fin 640) (Fin 120) = Fin 760"
  by code_simp

lemma sum_800: "num_add (Fin 760) (Fin 40) = Fin 800"
  by code_simp

lemma shares_sum_value:
  "shares_sum
     \<lparr>BudgetAllocation.total = Fin 800, BudgetAllocation.content = Fin 240,
      production = Fin 200, distribution = Fin 200, marketing = Fin 120,
      operations = Fin 40\<rparr> = Fin 800"
  unfolding shares_sum_def BudgetAllocation.select_convs sum_440 sum_640 sum_760 sum_800
  by (rule refl)

lemma morningBriefing_budgetAllocation:
  "budgetAllocation (fst (morningBriefing now uuid s)) = calculateBudgetAllocation"
  by (simp add: morningBriefing_def Let_def)

section \<open>The budget split of a planning cycle\<close>

text \<open>
  C4.  For every planning cycle (every call of \<open>morningBriefing\<close>, whatever the clock,
  the identifiers drawn and the state of the agent), the budget allocation of the plan is
  the fixed percentage split of the total budget: the total is 800, content receives 30%
  of it, production 25%, distribution 25%, marketing 15% and operations 5%, each computed
  in double arithmetic without rounding error, and the five shares add up exactly to the
  total.
\<close>

theorem C4_budget_allocation_split:
  "(let a = budgetAllocation (fst (morningBriefing now uuid s)); t = 800
    in a = calculateBudgetAllocation
     \<and> BudgetAllocation.total a = Fin t
     \<and> BudgetAllocation.content a = Fin (t * (30 / 100))
     \<and> production a = Fin (t * (25 / 100))
     \<and> distribution a = Fin (t * (25 / 100))
     \<and> marketing a = Fin (t * (15 / 100))
     \<and> operations a = Fin (t * (5 / 100))
     \<and> shares_sum a = BudgetAllocation.total a)"
proof -
  have a: "budgetAllocation (fst (morningBriefing now uuid s)) =
      \<lparr>BudgetAllocation.total = Fin 800, BudgetAllocation.content = Fin 240,
       production = Fin 200, distribution = Fin 200, marketing = Fin 120,
       operations = Fin 40\<rparr>"
    by (simp only: morningBriefing_budgetAllocation calculateBudgetAllocation_value)
  show ?thesis
    unfolding Let_def a
    by (simp add: shares_sum_value calculateBudgetAllocation_value)
qed

section \<open>Facts about strings\<close>

lemma startsWith_iff: "startsWith s t \<longleftrightarrow> (\<exists>post. s = t @ post)"
  by (induction s t rule: startsWith.induct) auto

lemma string_includes_iff: "string_includes s t \<longleftrightarrow> (\<exists>pre post. s = pre @ t @ post)"
proof (induction s)
  case Nil
  then show ?case by auto
next
  case (Cons c cs)
  show ?case
  proof
    assume "string_includes (c # cs) t"
    then consider "startsWith (c # cs) t" | "string_includes cs t"
      by auto
    then show "\<exists>pre post. c # cs = pre @ t @ post"
    proof cases
      case 1
      then obtain post where "c # cs = t @ post"
        by (auto simp: startsWith_iff)
      then have "c # cs = [] @ t @ post" by simp
      then show ?thesis by blast
    next
      case 2
      with Cons.IH obtain pre post where "cs = pre @ t @ post" by blast
      then have "c # cs = (c # pre) @ t @ post" by simp
      then show ?thesis by blast
    qed
  next
    assume "\<exists>pre post. c # cs = pre @ t @ post"
    then obtain pre post where eq: "c # cs = pre @ t @ post" by blast
    show "string_includes (c # cs) t"
    proof (cases pre)
      case Nil
      with eq have "startsWith (c # cs) t"
        by (auto simp: startsWith_iff)
      then show ?thesis by simp
    next
      case (Cons p ps)
      with eq have "cs = ps @ t @ post" by simp
      with Cons.IH have "string_includes cs t" by blast
      then show ?thesis by simp
    qed
  qed
qed

lemma array_some_iff: "array_some p xs \<longleftrightarrow> (\<exists>x\<in>set xs. p x)"
  by (induction xs) auto

lemma matches_rule_set_iff:
  "matches_rule_set rules action \<longleftrightarrow>
     (\<exists>rule\<in>set rules. \<exists>pre post. toLowerCase action = pre @ toLowerCase rule @ post)"
  by (simp add: matches_rule_set_def array_some_iff string_includes_iff)

lemma canDecideAutonomously_matches:
  "canDecideAutonomously action =
     matches_rule_set (canDecideAutonomously_rules HELMAR_AUTONOMY_RULES) action"
  by (simp add: canDecideAutonomously_def matches_rule_set_def)

lemma requiresApproval_entries_need_approval:
  "list_all (\<lambda>rule. \<not> canDecideAutonomously rule) (requiresApproval HELMAR_AUTONOMY_RULES)"
  by code_simp

lemma strategic_planning_needs_approval:
  "canDecideAutonomously ''Strategic planning within budget'' = False"
  by code_simp

section \<open>The autonomy gate\<close>

text \<open>
  C2, as the code has it.  The gate is a whitelist: an action is decided autonomously
  exactly when its lower-cased text contains the lower-cased text of some entry of
  \<open>canDecideAutonomously\<close>, and needs approval otherwise.  The gate takes no cost, and
  it consults neither \<open>requiresApproval\<close> nor \<open>mustReport\<close>; an action that is
  itself an entry of \<open>requiresApproval\<close> needs approval, because no such entry contains
  a whitelisted phrase.
\<close>

theorem C2_gate_is_whitelist:
  "(canDecideAutonomously action \<longleftrightarrow>
      (\<exists>rule\<in>set (canDecideAutonomously_rules HELMAR_AUTONOMY_RULES).
         \<exists>pre post. toLowerCase action = pre @ toLowerCase rule @ post))
   \<and> (\<forall>rule\<in>set (requiresApproval HELMAR_AUTONOMY_RULES). \<not> canDecideAutonomously rule)"
  using requiresApproval_entries_need_approval
  by (simp add: canDecideAutonomously_matches matches_rule_set_iff list_all_iff)

theorem C2_gate_is_whitelist_witness:
  "canDecideAutonomously ''Run A/B Testing Experiments on thumbnails''
   \<and> (\<exists>pre post. toLowerCase ''Run A/B Testing Experiments on thumbnails''
         = pre @ toLowerCase ''A/B testing experiments'' @ post)
   \<and> \<not> canDecideAutonomously ''Budget expenditure over $1000''"
proof -
  have a: "canDecideAutonomously ''Run A/B Testing Experiments on thumbnails''"
    by code_simp
  have b: "string_includes (toLowerCase ''Run A/B Testing Experiments on thumbnails'')
             (toLowerCase ''A/B testing experiments'')"
    by code_simp
  have c: "''Budget expenditure over $1000'' \<in> set (requiresApproval HELMAR_AUTONOMY_RULES)"
    by (simp add: HELMAR_AUTONOMY_RULES_def)
  from C2_gate_is_whitelist [of "''Run A/B Testing Experiments on thumbnails''"] a b c
  show ?thesis
    by (auto simp: string_includes_iff)
qed

text \<open>
  C2 as stated fails in both halves.  An action that names a \<open>requiresApproval\<close> entry and
  a whitelisted phrase is decided autonomously; and the action the CEO agent itself
  submits, which matches no \<open>requiresApproval\<close> entry, needs approval.
\<close>

theorem C2_counterexample:
  "matches_rule_set (requiresApproval HELMAR_AUTONOMY_RULES)
     ''Budget expenditure over $1000 for A/B testing experiments''
   \<and> canDecideAutonomously ''Budget expenditure over $1000 for A/B testing experiments''
   \<and> \<not> matches_rule_set (requiresApproval HELMAR_AUTONOMY_RULES)
         ''Strategic planning within budget''
   \<and> \<not> canDecideAutonomously ''Strategic planning within budget''"
  by code_simp

section \<open>Budgets\<close>

lemma makeStrategicDecisions_budget:
  "budget (fst (makeStrategicDecisions uuid isoDate s))
     = Math_min (BUDGET_LIMIT DECISION_THRESHOLDS) (Fin 800)"
  by (simp add: makeStrategicDecisions_def Let_def)

lemma calculateBudgetAllocation_total:
  "BudgetAllocation.total calculateBudgetAllocation
     = Math_min (BUDGET_LIMIT DECISION_THRESHOLDS) (Fin 800)"
  by (simp add: calculateBudgetAllocation_def Let_def)

text \<open>
  C1, as the code has it.  The agent keeps no ledger of the day's spending and its gate
  takes no cost.  What holds is the last part of the claim: every budget the agent commits
  to, the budget of a strategy and the total of a daily allocation, is
  \<open>min(BUDGET_LIMIT, 800)\<close>, at most the daily limit \<open>BUDGET_LIMIT\<close>.
\<close>

theorem C1_committed_budgets_within_limit:
  "budget (fst (makeStrategicDecisions uuid isoDate s)) = Fin 800
   \<and> BudgetAllocation.total (budgetAllocation (fst (morningBriefing now uuids s'))) = Fin 800
   \<and> BUDGET_LIMIT DECISION_THRESHOLDS = Fin 1000
   \<and> num_le (budget (fst (makeStrategicDecisions uuid isoDate s)))
       (BUDGET_LIMIT DECISION_THRESHOLDS)
   \<and> num_le (BudgetAllocation.total (budgetAllocation (fst (morningBriefing now uuids s'))))
       (BUDGET_LIMIT DECISION_THRESHOLDS)"
proof -
  have "BUDGET_LIMIT DECISION_THRESHOLDS = Fin 1000"
    by (simp add: DECISION_THRESHOLDS_def)
  then show ?thesis
    by (simp add: makeStrategicDecisions_budget morningBriefing_budgetAllocation
        calculateBudgetAllocation_total)
qed

text \<open>
  C1 as stated fails: an action that costs 999999 when nothing has been spent exceeds the
  limit of 1000, and the gate, which sees only the action's text and finds the whitelisted
  phrase \<open>Budget allocation under $1000\<close> in it, decides it autonomously.
\<close>

theorem C1_counterexample:
  "\<not> num_le (num_add (Fin 0) (Fin 999999)) (BUDGET_LIMIT DECISION_THRESHOLDS)
   \<and> canDecideAutonomously ''Budget allocation under $1000000''"
  by code_simp

section \<open>The performance figures of the CEO agent\<close>

lemma analyzePerformance_uptime:
  assumes "startTime s \<le> t1" and "startTime s \<le> t2"
  shows "in_unit_interval (systemUptime (analyzePerformance t1 t2 s))"
proof -
  from assms(2) have d: "(of_int (t2 - startTime s + 1000) :: rat) \<noteq> 0"
    by (metis add_nonneg_pos diff_ge_0_iff_ge less_numeral_extra(3) of_int_eq_0_iff
        zero_less_numeral)
  from assms have "(0::rat) \<le> of_int (t1 - startTime s) / of_int (t2 - startTime s + 1000)"
    by simp
  then have "num_le (Fin 0)
      (fl (of_int (t1 - startTime s) / of_int (t2 - startTime s + 1000)))"
    by (rule fl_nonneg)
  with d have "num_le (Fin 0)
      (num_div (Fin (of_int (t1 - startTime s))) (Fin (of_int (t2 - startTime s + 1000))))"
    by simp
  then show ?thesis
    by (simp add: analyzePerformance_def Let_def Math_min_unit del: num_div.simps)
qed

text \<open>
  C10, as the code has it.  Every call of \<open>analyzePerformance\<close> returns the same fixed
  figures whatever the state of the agent: 45 tasks completed out of 50, success rate 0.9,
  response time 150.  The system uptime it returns lies between 0 and 1 whenever neither
  reading of the clock is earlier than the agent's start time.
\<close>

theorem C10_analyzePerformance_fixed_metrics:
  "(let p = analyzePerformance t1 t2 s
    in tasksCompleted p = 45 \<and> tasksTotal p = 50 \<and> successRate p = lit (9 / 10)
     \<and> responseTime p = Fin 150
     \<and> (startTime s \<le> t1 \<and> startTime s \<le> t2 \<longrightarrow> in_unit_interval (systemUptime p)))"
  using analyzePerformance_uptime [of s t1 t2]
  by (simp add: Let_def) (simp add: analyzePerformance_def Let_def)

theorem C10_analyzePerformance_fixed_metrics_witness:
  "startTime (HelmarCEO_new 2000) \<le> 5000
   \<and> tasksCompleted (analyzePerformance 5000 5000 (HelmarCEO_new 2000)) = 45
   \<and> tasksTotal (analyzePerformance 5000 5000 (HelmarCEO_new 2000)) = 50
   \<and> in_unit_interval (systemUptime (analyzePerformance 5000 5000 (HelmarCEO_new 2000)))"
proof -
  have st: "startTime (HelmarCEO_new 2000) = 2000"
    by (simp add: HelmarCEO_new_def initializeDepartments_def log_info_def Let_def)
  from C10_analyzePerformance_fixed_metrics [of 5000 5000 "HelmarCEO_new 2000"] st
  show ?thesis
    by (simp add: Let_def)
qed

text \<open>
  C10 as stated fails when the clock is set back after the agent was constructed: started
  at 2000, with both readings at 1500, the uptime is \<open>-500 / 500 = -1\<close>.
\<close>

theorem C10_counterexample:
  "systemUptime (analyzePerformance 1500 1500 (HelmarCEO_new 2000)) = Fin (- 1)
   \<and> \<not> in_unit_interval (systemUptime (analyzePerformance 1500 1500 (HelmarCEO_new 2000)))"
proof -
  have st: "startTime (HelmarCEO_new 2000) = 2000"
    by (simp add: HelmarCEO_new_def initializeDepartments_def log_info_def Let_def)
  have "fl (- 1) = Fin (- 1)"
    by code_simp
  then have "systemUptime (analyzePerformance 1500 1500 (HelmarCEO_new 2000)) = Fin (- 1)"
    by (simp add: analyzePerformance_def Let_def st)
  then show ?thesis by simp
qed

section \<open>Facts about the content manager\<close>

lemma exec_append:
  "exec (xs @ ys) w = (case exec xs w of None \<Rightarrow> None | Some w' \<Rightarrow> exec ys w')"
  by (induction xs arbitrary: w) (auto split: option.splits)

lemma receiveTask_currentTasks:
  "currentTasks (manager (receiveTask task w)) = currentTasks (manager w) @ [task]"
  by (simp add: receiveTask_def Let_def)

lemma receiveTask_running: "running (receiveTask task w) = running w @ [task]"
  by (simp add: receiveTask_def Let_def)

lemma receiveTask_store: "store (receiveTask task w) = store w"
  by (simp add: receiveTask_def Let_def)

lemma receiveTask_status:
  "DepartmentManager.status (manager (receiveTask task w)) =
     (if 5 < length (currentTasks (manager w)) + 1 then Busy
      else DepartmentManager.status (manager w))"
  by (simp add: receiveTask_def Let_def)

lemma receiveTask_performance:
  "DepartmentManager.performance (manager (receiveTask task w)) =
     (DepartmentManager.performance (manager w))
       \<lparr>tasksTotal := tasksTotal (DepartmentManager.performance (manager w)) + 1\<rparr>"
  by (simp add: receiveTask_def Let_def)

lemma settle_Throws_manager: "manager (processTask_settle task Throws w) = manager w"
  by (simp add: processTask_settle_def)

lemma settle_Throws_status:
  "DepartmentTask.status (store (processTask_settle task Throws w) task) = Blocked"
  by (simp add: processTask_settle_def)

lemma settle_running: "running (processTask_settle task out w) = running w"
  by (cases out) (simp_all add: processTask_settle_def updatePerformanceMetrics_def Let_def)

lemma settle_Returns_counters:
  "tasksCompleted (DepartmentManager.performance (manager (processTask_settle task Returns w)))
     = tasksCompleted (DepartmentManager.performance (manager w)) + 1"
  "tasksTotal (DepartmentManager.performance (manager (processTask_settle task Returns w)))
     = tasksTotal (DepartmentManager.performance (manager w))"
  by (simp_all add: processTask_settle_def updatePerformanceMetrics_def Let_def)

lemma settle_Returns_successRate:
  "successRate (DepartmentManager.performance (manager (processTask_settle task Returns w)))
     = num_div (Fin (of_nat (tasksCompleted (DepartmentManager.performance (manager w)) + 1)))
               (Fin (of_nat (tasksTotal (DepartmentManager.performance (manager w)))))"
  by (simp add: processTask_settle_def updatePerformanceMetrics_def Let_def)

lemma settle_status:
  "DepartmentManager.status (manager (processTask_settle task out w)) = Online
   \<or> DepartmentManager.status (manager (processTask_settle task out w))
       = DepartmentManager.status (manager w)"
  by (cases out) (simp_all add: processTask_settle_def updatePerformanceMetrics_def Let_def)

text \<open>No step takes the manager offline.\<close>

lemma step_not_offline:
  assumes "step e w = Some w'" and "DepartmentManager.status (manager w) \<noteq> Offline"
  shows "DepartmentManager.status (manager w') \<noteq> Offline"
proof (cases e)
  case (Receive task)
  with assms show ?thesis by (auto simp: receiveTask_status split: if_splits)
next
  case (Settle task out)
  with assms settle_status [of task out w] show ?thesis
    by (auto split: if_splits)
qed

lemma exec_not_offline:
  "exec evs w = Some w' \<Longrightarrow> DepartmentManager.status (manager w) \<noteq> Offline
     \<Longrightarrow> DepartmentManager.status (manager w') \<noteq> Offline"
proof (induction evs arbitrary: w)
  case Nil
  then show ?case by simp
next
  case (Cons e evs)
  then show ?case
    by (auto split: option.splits dest: step_not_offline)
qed

text \<open>
  The counters: every completion counted and every running call belong to a task that was
  counted when it was received.
\<close>

lemma step_counters:
  assumes "step e w = Some w'"
    and "tasksCompleted (DepartmentManager.performance (manager w)) + length (running w)
           \<le> tasksTotal (DepartmentManager.performance (manager w))"
  shows "tasksCompleted (DepartmentManager.performance (manager w')) + length (running w')
           \<le> tasksTotal (DepartmentManager.performance (manager w'))"
proof (cases e)
  case (Receive task)
  with assms show ?thesis
    by (auto simp: receiveTask_running receiveTask_performance)
next
  case (Settle task out)
  with assms have mem: "task \<in> set (running w)"
    and w': "w' = (processTask_settle task out w)\<lparr>running := remove1 task (running w)\<rparr>"
    by (auto split: if_splits)
  from mem have len: "length (remove1 task (running w)) + 1 = length (running w)"
    by (simp add: length_remove1) (metis length_pos_if_in_set Suc_pred)
  show ?thesis
  proof (cases out)
    case Returns
    with w' len assms(2) show ?thesis
      by (simp add: settle_Returns_counters)
  next
    case Throws
    with w' len assms(2) show ?thesis
      by (simp add: settle_Throws_manager)
  qed
qed

lemma exec_counters:
  "exec evs w = Some w'
   \<Longrightarrow> tasksCompleted (DepartmentManager.performance (manager w)) + length (running w)
           \<le> tasksTotal (DepartmentManager.performance (manager w))
   \<Longrightarrow> tasksCompleted (DepartmentManager.performance (manager w')) + length (running w')
           \<le> tasksTotal (DepartmentManager.performance (manager w'))"
proof (induction evs arbitrary: w)
  case Nil
  then show ?case by simp
next
  case (Cons e evs)
  from Cons.prems(1) obtain w1 where s: "step e w = Some w1" and r: "exec evs w1 = Some w'"
    by (auto split: option.splits)
  from Cons.IH [OF r step_counters [OF s Cons.prems(2)]] show ?case .
qed

lemma exec_Receive:
  "exec (map Receive tasks) w = Some w' \<Longrightarrow>
     currentTasks (manager w') = currentTasks (manager w) @ tasks
     \<and> running w' = running w @ tasks \<and> store w' = store w"
  by (induction tasks arbitrary: w)
    (auto simp: receiveTask_currentTasks receiveTask_running receiveTask_store)

lemma exec_Receive_Some: "\<exists>w'. exec (map Receive tasks) w = Some w'"
  by (induction tasks arbitrary: w) auto

lemma settle_currentTasks:
  "currentTasks (manager (processTask_settle task out w)) = currentTasks (manager w)"
  by (cases out) (simp_all add: processTask_settle_def updatePerformanceMetrics_def Let_def)

lemma step_currentTasks:
  assumes "step e w = Some w'"
  shows "currentTasks (manager w') = currentTasks (manager w) @ receptions [e]"
proof (cases e)
  case (Receive task)
  with assms show ?thesis
    by (auto simp: receiveTask_currentTasks)
next
  case (Settle task out)
  with assms show ?thesis
    by (auto simp: settle_currentTasks split: if_splits)
qed

lemma receptions_Cons: "receptions (e # es) = receptions [e] @ receptions es"
  by (cases e) simp_all

lemma exec_currentTasks:
  "exec evs w = Some w' \<Longrightarrow>
     currentTasks (manager w') = currentTasks (manager w) @ receptions evs"
proof (induction evs arbitrary: w)
  case Nil
  then show ?case by simp
next
  case (Cons e evs)
  from Cons.prems obtain w1 where s: "step e w = Some w1" and r: "exec evs w1 = Some w'"
    by (auto split: option.splits)
  from Cons.IH [OF r] step_currentTasks [OF s] show ?case
    by (simp add: receptions_Cons [of e evs])
qed

section \<open>The manager's status\<close>

text \<open>
  C9.  Under every sequence of task receptions and settlements of \<open>processTask\<close>,
  starting from a freshly constructed content manager, the manager's status is
  \<open>online\<close> or \<open>busy\<close>: no operation sets it to \<open>offline\<close>, however many tasks
  fail.
\<close>

theorem C9_status_online_or_busy:
  assumes "exec evs (ContentManager_new h) = Some w"
  shows "DepartmentManager.status (manager w) = Online
       \<or> DepartmentManager.status (manager w) = Busy"
proof -
  have "DepartmentManager.status (manager (ContentManager_new h)) \<noteq> Offline"
    by (simp add: ContentManager_new_def)
  with assms have "DepartmentManager.status (manager w) \<noteq> Offline"
    by (rule exec_not_offline)
  then show ?thesis
    by (cases "DepartmentManager.status (manager w)") simp_all
qed

theorem C9_status_online_or_busy_witness:
  "\<exists>w. exec [Receive 0, Settle 0 Throws, Receive 1, Settle 1 Throws, Receive 2,
              Settle 2 Throws] (ContentManager_new example_store) = Some w
       \<and> (DepartmentManager.status (manager w) = Online
          \<or> DepartmentManager.status (manager w) = Busy)"
proof -
  obtain w where ex: "exec [Receive 0, Settle 0 Throws, Receive 1, Settle 1 Throws,
      Receive 2, Settle 2 Throws] (ContentManager_new example_store) = Some w"
    by (simp add: receiveTask_def processTask_settle_def Let_def ContentManager_new_def)
  from C9_status_online_or_busy [OF ex] ex show ?thesis by blast
qed

section \<open>The success rate\<close>

text \<open>
  What the success path keeps.  Take any sequence of task receptions and settlements
  (successful or failed, in any interleaving) of a freshly constructed content manager,
  followed by the successful completion of a task.  Right after that completion the
  success rate is the completed count divided by the total count (the double nearest to
  the quotient), where the total count is positive and the completed count does not
  exceed it.
\<close>

lemma successRate_after_completion:
  assumes "exec (evs @ [Settle task Returns]) (ContentManager_new h) = Some w"
  shows "(let p = DepartmentManager.performance (manager w)
          in successRate p = fl (of_nat (tasksCompleted p) / of_nat (tasksTotal p))
           \<and> 0 < tasksTotal p \<and> tasksCompleted p \<le> tasksTotal p)"
proof -
  from assms obtain w0 where w0: "exec evs (ContentManager_new h) = Some w0"
    and st: "step (Settle task Returns) w0 = Some w"
    by (auto simp: exec_append split: option.splits)
  from st have mem: "task \<in> set (running w0)"
    and w: "w = (processTask_settle task Returns w0)\<lparr>running := remove1 task (running w0)\<rparr>"
    by (auto split: if_splits)
  have "tasksCompleted (DepartmentManager.performance (manager (ContentManager_new h)))
        + length (running (ContentManager_new h))
        \<le> tasksTotal (DepartmentManager.performance (manager (ContentManager_new h)))"
    by (simp add: ContentManager_new_def)
  with w0 have inv: "tasksCompleted (DepartmentManager.performance (manager w0))
        + length (running w0) \<le> tasksTotal (DepartmentManager.performance (manager w0))"
    by (rule exec_counters)
  from mem have "1 \<le> length (running w0)"
    by (cases "running w0") simp_all
  with inv have le: "tasksCompleted (DepartmentManager.performance (manager w0)) + 1
        \<le> tasksTotal (DepartmentManager.performance (manager w0))"
    by linarith
  then have pos: "0 < tasksTotal (DepartmentManager.performance (manager w0))"
    by simp
  from w le pos show ?thesis
    by (simp add: Let_def settle_Returns_counters settle_Returns_successRate)
qed

lemma successRate_after_completion_example:
  "\<exists>w. exec ([Receive 0, Receive 1, Settle 0 Throws] @ [Settle 1 Returns])
          (ContentManager_new example_store) = Some w
       \<and> successRate (DepartmentManager.performance (manager w)) = fl (1 / 2)
       \<and> tasksCompleted (DepartmentManager.performance (manager w)) = 1
       \<and> tasksTotal (DepartmentManager.performance (manager w)) = 2"
proof -
  obtain w where ex: "exec ([Receive 0, Receive 1, Settle 0 Throws] @ [Settle 1 Returns])
      (ContentManager_new example_store) = Some w"
    by (simp add: receiveTask_def processTask_settle_def updatePerformanceMetrics_def
        Let_def ContentManager_new_def)
  then have c: "tasksCompleted (DepartmentManager.performance (manager w)) = 1"
    and t: "tasksTotal (DepartmentManager.performance (manager w)) = 2"
    by (auto simp: receiveTask_def processTask_settle_def updatePerformanceMetrics_def
        Let_def ContentManager_new_def)
  from successRate_after_completion [OF ex] c t ex show ?thesis
    by (auto simp: Let_def)
qed

text \<open>
  Neither a reception nor a failed task recomputes the rate: after one success, a second
  reception and a failure the rate still reads 1, with 1 task completed out of 2.
\<close>

lemma successRate_kept_by_failure:
  "(case exec [Receive 0, Settle 0 Returns, Receive 1, Settle 1 Throws]
           (ContentManager_new example_store) of
      None \<Rightarrow> False
    | Some w \<Rightarrow>
        successRate (DepartmentManager.performance (manager w)) = Fin 1
        \<and> tasksCompleted (DepartmentManager.performance (manager w)) = 1
        \<and> tasksTotal (DepartmentManager.performance (manager w)) = 2)"
proof -
  have "fl 1 = Fin 1"
    by code_simp
  then show ?thesis
    by (simp add: receiveTask_def processTask_settle_def updatePerformanceMetrics_def
        Let_def ContentManager_new_def del: One_nat_def)
qed

lemma fl_one: "fl 1 = Fin 1"
  by code_simp

lemma nine_tenths: "num_div (Fin 9) (Fin 10) = Fin (8106479329266893 / 9007199254740992)"
  by code_simp

text \<open>
  C3 is not kept by the code.  The claim: after every recorded task outcome, success or
  failure, the success rate of the department is its completed count divided by its total
  count.  The success path of \<open>processTask\<close> recomputes the rate
  (\<open>updatePerformanceMetrics\<close>); the \<open>catch\<close> block beside it does not.  Ten tasks
  are handed to a fresh manager one after the other, each settled before the next is
  received; nine complete and the tenth fails.  The counts then read 9 of 10, whose
  quotient is the double \<open>0.9\<close>, and the success rate still reads 1, the value the
  ninth completion left.
\<close>

theorem C3_rate_stale_after_failure:
  "(case exec nine_successes_then_failure (ContentManager_new example_store) of
      None \<Rightarrow> False
    | Some w \<Rightarrow>
        tasksCompleted (DepartmentManager.performance (manager w)) = 9
        \<and> tasksTotal (DepartmentManager.performance (manager w)) = 10
        \<and> DepartmentTask.status (store w 9) = Blocked
        \<and> running w = []
        \<and> successRate (DepartmentManager.performance (manager w)) = Fin 1
        \<and> num_div (Fin (of_nat (tasksCompleted (DepartmentManager.performance (manager w)))))
              (Fin (of_nat (tasksTotal (DepartmentManager.performance (manager w)))))
            = Fin (8106479329266893 / 9007199254740992)
        \<and> successRate (DepartmentManager.performance (manager w))
            \<noteq> num_div
                (Fin (of_nat (tasksCompleted (DepartmentManager.performance (manager w)))))
                (Fin (of_nat (tasksTotal (DepartmentManager.performance (manager w))))))"
  using fl_one nine_tenths
  by (simp add: nine_successes_then_failure_def receiveTask_def processTask_settle_def
      updatePerformanceMetrics_def Let_def ContentManager_new_def del: One_nat_def)

section \<open>Reception of tasks\<close>

text \<open>
  C7, as the code has it.  \<open>receiveTask\<close> accepts every task, whatever the manager's
  load: the task is appended to \<open>currentTasks\<close>, counted in \<open>tasksTotal\<close>, and its
  processing starts at once beside the calls already running.  There is no concurrency
  limit and no rejection; a manager that holds more than 5 tasks turns \<open>busy\<close> and
  still accepts.
\<close>

theorem C7_receiveTask_accepts_every_task:
  "step (Receive task) w = Some (receiveTask task w)
   \<and> currentTasks (manager (receiveTask task w)) = currentTasks (manager w) @ [task]
   \<and> running (receiveTask task w) = running w @ [task]
   \<and> tasksTotal (DepartmentManager.performance (manager (receiveTask task w)))
       = tasksTotal (DepartmentManager.performance (manager w)) + 1
   \<and> DepartmentManager.status (manager (receiveTask task w))
       = (if 5 < length (currentTasks (manager w)) + 1 then Busy
          else DepartmentManager.status (manager w))"
  by (simp add: receiveTask_currentTasks receiveTask_running receiveTask_performance
      receiveTask_status)

text \<open>
  C7 as stated fails: a fresh manager, which declares no concurrency limit, is given a
  second task while the first is still running; it accepts it and holds both, each still
  pending.
\<close>

theorem C7_counterexample:
  "(case exec [Receive 1, Receive 2] (ContentManager_new example_store) of
      None \<Rightarrow> False
    | Some w \<Rightarrow>
        running w = [1, 2]
        \<and> currentTasks (manager w) = [1, 2]
        \<and> DepartmentTask.status (store w 1) = Pending
        \<and> DepartmentTask.status (store w 2) = Pending)"
  by (simp add: receiveTask_def Let_def ContentManager_new_def example_store_def)

section \<open>Order of processing\<close>

text \<open>
  C8, as the code has it.  Tasks received one after the other are appended to
  \<open>currentTasks\<close> and their processing starts in the order of reception, whatever
  their priorities and deadlines: the manager never reorders and never reads either field.
  Settlements in between change nothing of it: after any sequence of events
  \<open>currentTasks\<close> holds the tasks received, in the order of reception.
\<close>

theorem C8_tasks_start_in_insertion_order:
  "(case exec (map Receive tasks) w of
      None \<Rightarrow> False
    | Some w' \<Rightarrow>
        currentTasks (manager w') = currentTasks (manager w) @ tasks
        \<and> running w' = running w @ tasks
        \<and> store w' = store w)
   \<and> (exec evs w = Some w'' \<longrightarrow>
        currentTasks (manager w'') = currentTasks (manager w) @ receptions evs)"
proof -
  obtain w' where ex: "exec (map Receive tasks) w = Some w'"
    using exec_Receive_Some by blast
  from exec_Receive [OF ex] ex exec_currentTasks [of evs w w''] show ?thesis
    by simp
qed

theorem C8_tasks_start_in_insertion_order_witness:
  "(case exec [Receive 0, Receive 1, Settle 1 Returns, Receive 2, Settle 0 Throws]
           (ContentManager_new example_store) of
      None \<Rightarrow> False
    | Some w \<Rightarrow> currentTasks (manager w) = [0, 1, 2])"
proof -
  obtain w where ex: "exec [Receive 0, Receive 1, Settle 1 Returns, Receive 2,
      Settle 0 Throws] (ContentManager_new example_store) = Some w"
    by (simp add: receiveTask_def processTask_settle_def updatePerformanceMetrics_def
        Let_def ContentManager_new_def)
  have "currentTasks (manager (ContentManager_new example_store)) = []"
    by (simp add: ContentManager_new_def)
  with C8_tasks_start_in_insertion_order [where tasks = "[]"
      and w = "ContentManager_new example_store"
      and evs = "[Receive 0, Receive 1, Settle 1 Returns, Receive 2, Settle 0 Throws]"
      and w'' = w] ex
  show ?thesis
    by simp
qed

text \<open>
  C8 as stated fails: a low-priority task with the later deadline received before a
  high-priority task with the earlier deadline is queued and started first.
\<close>

theorem C8_counterexample:
  "(case exec [Receive 0, Receive 1] (ContentManager_new example_store) of
      None \<Rightarrow> False
    | Some w \<Rightarrow>
        running w = [0, 1]
        \<and> currentTasks (manager w) = [0, 1]
        \<and> priority (store w 0) = Low \<and> priority (store w 1) = High
        \<and> DepartmentTask.deadline (store w 1) < DepartmentTask.deadline (store w 0))"
  by (simp add: receiveTask_def Let_def ContentManager_new_def example_store_def)

section \<open>Facts about the CEO agent's state\<close>

lemma log_info_fields [simp]:
  "HelmarCEO.issues (log_info msg s) = HelmarCEO.issues s"
  "departments (log_info msg s) = departments s"
  "logger (log_info msg s) = logger s @ [(Info, msg, None)]"
  "startTime (log_info msg s) = startTime s"
  by (simp_all add: log_info_def)

lemma log_error_fields [simp]:
  "HelmarCEO.issues (log_error msg e s) = HelmarCEO.issues s"
  "departments (log_error msg e s) = departments s"
  "logger (log_error msg e s) = logger s @ [(Error, msg, Some e)]"
  by (simp_all add: log_error_def)

lemma manageDepartment_fields:
  "HelmarCEO.issues (manageDepartment throws d s) = HelmarCEO.issues s"
  "departments (manageDepartment throws d s) = departments s"
  "logger (manageDepartment throws d s) = logger s @
     (case throws d of
        None \<Rightarrow> []
      | Some e \<Rightarrow> [(Error, ''Error managing '' @ d @ '' department:'', Some e),
                   (Error, ''Department '' @ d @ '' error:'', Some e)])"
  by (simp_all add: manageDepartment_def handleDepartmentError_def split: option.splits)

lemma manageDepartments_loop_fields:
  "HelmarCEO.issues (manageDepartments_loop throws ds s) = HelmarCEO.issues s
   \<and> departments (manageDepartments_loop throws ds s) = departments s
   \<and> logger (manageDepartments_loop throws ds s) = logger s @
       concat (map (\<lambda>d. case throws d of
          None \<Rightarrow> []
        | Some e \<Rightarrow> [(Error, ''Error managing '' @ d @ '' department:'', Some e),
                     (Error, ''Department '' @ d @ '' error:'', Some e)]) ds)"
  by (induction ds arbitrary: s) (simp_all add: manageDepartment_fields)

lemma manageDepartments_issues:
  "HelmarCEO.issues (manageDepartments throws s) = HelmarCEO.issues s"
  by (simp add: manageDepartments_def Let_def manageDepartments_loop_fields)

lemma HelmarCEO_new_issues: "HelmarCEO.issues (HelmarCEO_new now) = []"
  by (simp add: HelmarCEO_new_def initializeDepartments_def Let_def)

lemma HelmarCEO_new_departments:
  "map fst (departments (HelmarCEO_new now))
     = [''content'', ''production'', ''distribution'', ''revenue'']"
  by (simp add: HelmarCEO_new_def initializeDepartments_def Let_def log_info_def)

lemma ceo_step_issues: "HelmarCEO.issues (ceo_step c s) = HelmarCEO.issues s"
  by (cases c)
    (simp_all add: morningBriefing_def makeStrategicDecisions_def eveningReport_def
      manageDepartments_issues distributeDailyPlan_def implementStrategy_def
      requestApproval_def sendReport_def Let_def)

lemma ceo_run_issues: "HelmarCEO.issues (ceo_run cs s) = HelmarCEO.issues s"
  by (induction cs arbitrary: s) (simp_all add: ceo_step_issues)

lemma eveningReport_issues:
  "DailyReport.issues (fst (eveningReport t1 t2 now s))
     = filter (\<lambda>i. Issue.status i \<noteq> IssueResolved) (HelmarCEO.issues s)"
  by (simp add: eveningReport_def Let_def)

lemma report_issues_empty:
  "DailyReport.issues (fst (eveningReport t1 t2 now (ceo_run cs (HelmarCEO_new t0)))) = []"
  by (simp add: eveningReport_issues ceo_run_issues HelmarCEO_new_issues)

section \<open>Errors in the department cycle\<close>

text \<open>
  C6, as the code has it.  Whatever departments raise an error during
  \<open>manageDepartments\<close>, the call returns normally, having gone through every department
  in the order of the \<open>departments\<close> map: for each department whose processing raised,
  the error is caught and logged twice with the department's name (by the \<open>catch\<close>
  block and by \<open>handleDepartmentError\<close>), and the departments after it are processed
  all the same.  No \<open>Issue\<close> is recorded: the issue list is left as it was.
\<close>

theorem C6_department_errors_caught_and_logged:
  "(let s' = manageDepartments throws s
    in HelmarCEO.issues s' = HelmarCEO.issues s
     \<and> departments s' = departments s
     \<and> logger s' = logger s @ [(Info, ''Managing department operations...'', None)] @
         concat (map (\<lambda>d. case throws d of
            None \<Rightarrow> []
          | Some e \<Rightarrow> [(Error, ''Error managing '' @ d @ '' department:'', Some e),
                       (Error, ''Department '' @ d @ '' error:'', Some e)])
           (map fst (departments s))))"
proof -
  define s1 where "s1 = log_info ''Managing department operations...'' s"
  have s1: "HelmarCEO.issues s1 = HelmarCEO.issues s" "departments s1 = departments s"
    "logger s1 = logger s @ [(Info, ''Managing department operations...'', None)]"
    by (simp_all add: s1_def)
  have run: "manageDepartments throws s
      = manageDepartments_loop throws (map fst (departments s)) s1"
    by (simp add: manageDepartments_def Let_def s1_def)
  from manageDepartments_loop_fields [of throws "map fst (departments s)" s1] s1
  show ?thesis
    by (simp add: run Let_def)
qed

text \<open>
  C6 as stated fails: the content department raises an error in the cycle of a fresh
  agent; the error is logged, and the issue list is still empty afterwards.
\<close>

theorem C6_counterexample:
  "HelmarCEO.issues (manageDepartments content_throws (HelmarCEO_new 0)) = []
   \<and> logger (manageDepartments content_throws (HelmarCEO_new 0)) =
       [(Info, ''Helmar CEO Agent initialized'', None),
        (Info, ''Initialized 4 department managers'', None),
        (Info, ''Managing department operations...'', None),
        (Error, ''Error managing content department:'', Some ''health check failed''),
        (Error, ''Department content error:'', Some ''health check failed'')]"
  by (simp add: manageDepartments_def manageDepartment_def handleDepartmentError_def
      HelmarCEO_new_def initializeDepartments_def content_throws_def Let_def
      log_info_def log_error_def)

section \<open>Failed tasks\<close>

text \<open>
  C5, as the code has it.  When the processing of a task fails, the task is marked
  \<open>blocked\<close> at that failure (the status type has no \<open>failed\<close>, and no attempts are
  counted); the call is settled and the manager starts nothing in its place, so the task
  is not retried, and \<open>currentTasks\<close> is left as it was.  No \<open>Issue\<close> is
  created for it: the issue list of every report of the CEO agent is empty, whatever calls
  the agent has received.
\<close>

theorem C5_failed_task_blocked_not_reported:
  assumes "task \<in> set (running w)"
  shows "(case step (Settle task Throws) w of
            None \<Rightarrow> False
          | Some w' \<Rightarrow>
              DepartmentTask.status (store w' task) = Blocked
              \<and> currentTasks (manager w') = currentTasks (manager w)
              \<and> running w' = remove1 task (running w))
         \<and> DailyReport.issues
             (fst (eveningReport t1 t2 now (ceo_run calls (HelmarCEO_new t0)))) = []"
  using assms
  by (simp add: settle_Throws_manager settle_Throws_status report_issues_empty)

theorem C5_failed_task_blocked_not_reported_witness:
  "0 \<in> set (running (receiveTask 0 (ContentManager_new example_store)))
   \<and> (case step (Settle 0 Throws) (receiveTask 0 (ContentManager_new example_store)) of
        None \<Rightarrow> False
      | Some w' \<Rightarrow> DepartmentTask.status (store w' 0) = Blocked \<and> running w' = [])
   \<and> DailyReport.issues
        (fst (eveningReport 10 10 10
           (ceo_run [ManageDepartments content_throws] (HelmarCEO_new 0)))) = []"
proof -
  have r: "running (receiveTask 0 (ContentManager_new example_store)) = [0]"
    by (simp add: receiveTask_running ContentManager_new_def)
  then have m: "0 \<in> set (running (receiveTask 0 (ContentManager_new example_store)))"
    by simp
  from C5_failed_task_blocked_not_reported [OF m, of 10 10 10
      "[ManageDepartments content_throws]" 0] r m
  show ?thesis
    by (auto split: option.splits)
qed

text \<open>
  C5 as stated fails: a task received three times fails three times; its status is then
  \<open>blocked\<close>, and the report made after a department cycle lists no issue.
\<close>

theorem C5_counterexample:
  "(case exec [Receive 0, Settle 0 Throws, Receive 0, Settle 0 Throws, Receive 0,
              Settle 0 Throws] (ContentManager_new example_store) of
      None \<Rightarrow> False
    | Some w \<Rightarrow> DepartmentTask.status (store w 0) = Blocked \<and> running w = [])
   \<and> DailyReport.issues
        (fst (eveningReport 10 10 10
           (ceo_run [ManageDepartments (\<lambda>d. None)] (HelmarCEO_new 0)))) = []"
proof -
  have "DailyReport.issues
      (fst (eveningReport 10 10 10
         (ceo_run [ManageDepartments (\<lambda>d. None)] (HelmarCEO_new 0)))) = []"
    by (rule report_issues_empty)
  then show ?thesis
    by (simp add: receiveTask_def processTask_settle_def Let_def ContentManager_new_def
        del: ceo_run.simps)
qed

end
